theory Spec2Isabelle
  imports Main "HOL-Library.Sublist"
begin

section \<open>Runner configuration\<close>

text \<open>
  The Go package \<^verbatim>\<open>runner\<close> (runner.go) is embedded function by function.
  Go strings are byte sequences, hence \<^typ>\<open>string\<close>. A Go map that is only
  looked up is a partial function; reading a missing key of a
  \<^verbatim>\<open>map[string]string\<close> yields the empty string, which \<open>index\<close> spells out.
\<close>

type_synonym allowedVals = "string \<rightharpoonup> bool"
type_synonym targetMatrixValues = "string \<rightharpoonup> allowedVals"

text \<open>
  \<^verbatim>\<open>Config\<close>: only the fields that the functions below read are kept
  (\<^verbatim>\<open>EventPath\<close>, \<^verbatim>\<open>Inputs\<close>, \<^verbatim>\<open>Secrets\<close>, \<^verbatim>\<open>Matrix\<close>,
  \<^verbatim>\<open>EventJSON\<close>, \<^verbatim>\<open>ContainerNetworkMode\<close>).
\<close>

record Config =
  EventPath :: string
  Inputs :: "string \<rightharpoonup> string"
  Secrets :: "string \<rightharpoonup> string"
  Matrix :: targetMatrixValues
  EventJSON :: string
  ContainerNetworkMode :: string

definition index :: "(string \<rightharpoonup> string) \<Rightarrow> string \<Rightarrow> string" where
  "index m k = (case m k of None \<Rightarrow> [] | Some v \<Rightarrow> v)"

text \<open>
  \<^verbatim>\<open>
  func (c Config) GetToken() string {
      token := c.Secrets["GITHUB_TOKEN"]
      if c.Secrets["GITEA_TOKEN"] != "" {
          token = c.Secrets["GITEA_TOKEN"]
      }
      return token
  }
  \<close>
\<close>

definition GetToken :: "Config \<Rightarrow> string" where
  "GetToken c =
     (let token = index (Secrets c) ''GITHUB_TOKEN'';
          token = (if index (Secrets c) ''GITEA_TOKEN'' \<noteq> []
                   then index (Secrets c) ''GITEA_TOKEN'' else token)
      in token)"

subsection \<open>Network modes\<close>

text \<open>
  \<^verbatim>\<open>strings.Index\<close> and \<^verbatim>\<open>strings.SplitN\<close> of the Go standard library, for a
  non-empty separator and a count \<open>n \<ge> 0\<close> (the only call is
  \<^verbatim>\<open>SplitN(mode, ":", 2)\<close>). \<open>genSplit k\<close> is the library's loop
  \<^verbatim>\<open>for i < n\<close> with \<open>k\<close> separators still to be cut; the library first caps
  \<open>n\<close> at \<^verbatim>\<open>len(s)+1\<close> and then lowers it by one.
\<close>

fun Index :: "string \<Rightarrow> string \<Rightarrow> nat option" where
  "Index [] substr = (if substr = [] then Some 0 else None)"
| "Index (c # s) substr =
     (if take (length substr) (c # s) = substr then Some 0
      else map_option Suc (Index s substr))"

fun genSplit :: "nat \<Rightarrow> string \<Rightarrow> string \<Rightarrow> string list" where
  "genSplit 0 s sep = [s]"
| "genSplit (Suc k) s sep =
     (case Index s sep of
        None \<Rightarrow> [s]
      | Some m \<Rightarrow> take m s # genSplit k (drop (m + length sep) s) sep)"

definition SplitN :: "string \<Rightarrow> string \<Rightarrow> nat \<Rightarrow> string list" where
  "SplitN s sep n =
     (if n = 0 then [] else genSplit (min n (length s + 1) - 1) s sep)"

definition IsNetworkModeHost :: "Config \<Rightarrow> bool" where
  "IsNetworkModeHost c = (ContainerNetworkMode c = ''host'')"

definition IsNetworkModeNone :: "Config \<Rightarrow> bool" where
  "IsNetworkModeNone c = (ContainerNetworkMode c = ''none'')"

definition IsNetworkModeBridge :: "Config \<Rightarrow> bool" where
  "IsNetworkModeBridge c = (ContainerNetworkMode c = ''bridge'')"

definition IsNetworkModeContainer :: "Config \<Rightarrow> bool" where
  "IsNetworkModeContainer c =
     (let parts = SplitN (ContainerNetworkMode c) '':'' 2
      in length parts > 1 \<and> parts ! 0 = ''container'')"

definition IsNetworkUserDefined :: "Config \<Rightarrow> bool" where
  "IsNetworkUserDefined c =
     (\<not> IsNetworkModeHost c \<and> \<not> IsNetworkModeNone c \<and>
      \<not> IsNetworkModeBridge c \<and> \<not> IsNetworkModeContainer c)"

section \<open>Runner construction\<close>

text \<open>
  A Go \<^verbatim>\<open>error\<close> is a value carrying its message. \<^verbatim>\<open>os.ReadFile\<close> and
  \<^verbatim>\<open>json.Marshal\<close> belong to the Go standard library and the file system; they
  are arguments of \<open>configure\<close>: \<open>ReadFile path\<close> is what reading \<open>path\<close> gives,
  \<open>Marshal m\<close> the JSON text of the map \<open>m\<close>. The field \<^verbatim>\<open>caller\<close> of
  \<^verbatim>\<open>runnerImpl\<close> is not read by any function embedded here and is left out.
\<close>

datatype error = Error string

record runnerImpl =
  config :: Config
  eventJSON :: string

text \<open>
  \<^verbatim>\<open>
  func (runner *runnerImpl) configure() (Runner, error) {
      runner.eventJSON = "{}"
      if runner.config.EventJSON != "" {
          runner.eventJSON = runner.config.EventJSON
      } else if runner.config.EventPath != "" {
          eventJSONBytes, err := os.ReadFile(runner.config.EventPath)
          if err != nil { return nil, err }
          runner.eventJSON = string(eventJSONBytes)
      } else if len(runner.config.Inputs) != 0 {
          eventMap := map[string]map[string]string{"inputs": runner.config.Inputs}
          eventJSON, err := json.Marshal(eventMap)
          if err != nil { return nil, err }
          runner.eventJSON = string(eventJSON)
      }
      return runner, nil
  }
  \<close>
  \<^verbatim>\<open>len(m) != 0\<close> of a map is \<open>m \<noteq> Map.empty\<close>.
\<close>

definition configure ::
  "(string \<Rightarrow> error + string) \<Rightarrow> ((string \<rightharpoonup> (string \<rightharpoonup> string)) \<Rightarrow> error + string) \<Rightarrow>
   runnerImpl \<Rightarrow> error + runnerImpl" where
  "configure ReadFile Marshal runner0 =
     (let runner = runner0\<lparr>eventJSON := ''{}''\<rparr> in
      if EventJSON (config runner) \<noteq> [] then
        Inr (runner\<lparr>eventJSON := EventJSON (config runner)\<rparr>)
      else if EventPath (config runner) \<noteq> [] then
        (case ReadFile (EventPath (config runner)) of
           Inl err \<Rightarrow> Inl err
         | Inr eventJSONBytes \<Rightarrow> Inr (runner\<lparr>eventJSON := eventJSONBytes\<rparr>))
      else if Inputs (config runner) \<noteq> Map.empty then
        (case Marshal [''inputs'' \<mapsto> Inputs (config runner)] of
           Inl err \<Rightarrow> Inl err
         | Inr s \<Rightarrow> Inr (runner\<lparr>eventJSON := s\<rparr>))
      else Inr runner)"

definition New ::
  "(string \<Rightarrow> error + string) \<Rightarrow> ((string \<rightharpoonup> (string \<rightharpoonup> string)) \<Rightarrow> error + string) \<Rightarrow>
   Config \<Rightarrow> error + runnerImpl" where
  "New ReadFile Marshal runnerConfig =
     configure ReadFile Marshal \<lparr>config = runnerConfig, eventJSON = []\<rparr>"

section \<open>Plans\<close>

text \<open>
  The types of package \<^verbatim>\<open>model\<close>, with the fields that runner.go reads:
  \<^verbatim>\<open>plan.Stages\<close>, \<^verbatim>\<open>stage.Runs\<close>, \<^verbatim>\<open>run.JobID\<close>, \<^verbatim>\<open>run.Job()\<close>,
  \<^verbatim>\<open>job.Strategy\<close> (a pointer, hence an option), \<^verbatim>\<open>job.Strategy.MaxParallel\<close>
  and \<^verbatim>\<open>job.Result\<close>. The accessor \<^verbatim>\<open>run.Job()\<close> is the field \<open>Job\<close>.
\<close>

record Strategy =
  MaxParallel :: int

record Job =
  Strategy :: "Strategy option"
  Result :: string

record Run =
  JobID :: string
  Job :: Job

record Stage =
  Runs :: "Run list"

record Plan =
  Stages :: "Stage list"

subsection \<open>Failure aggregation\<close>

text \<open>
  \<^verbatim>\<open>
  func handleFailure(plan *model.Plan) common.Executor {
      return func(ctx context.Context) error {
          for _, stage := range plan.Stages {
              for _, run := range stage.Runs {
                  if run.Job().Result == "failure" {
                      return fmt.Errorf("Job '%s' failed", run.String())
                  }
              }
          }
          return nil
      }
  }
  \<close>
  \<^verbatim>\<open>run.String()\<close> is a method of package \<^verbatim>\<open>model\<close>; it is the argument
  \<open>String\<close>. The result \<open>None\<close> is \<^verbatim>\<open>nil\<close>. A loop returns \<open>Some e\<close> when
  its body returned \<open>e\<close>, and \<open>None\<close> when it ran to its end.
\<close>

definition failed :: "string \<Rightarrow> error" where
  "failed name = Error (''Job '' @ [CHR 0x27] @ name @ [CHR 0x27] @ '' failed'')"

fun handleRuns :: "(Run \<Rightarrow> string) \<Rightarrow> Run list \<Rightarrow> error option" where
  "handleRuns String [] = None"
| "handleRuns String (run # runs) =
     (if Result (Job run) = ''failure'' then Some (failed (String run))
      else handleRuns String runs)"

fun handleStages :: "(Run \<Rightarrow> string) \<Rightarrow> Stage list \<Rightarrow> error option" where
  "handleStages String [] = None"
| "handleStages String (stage # stages) =
     (case handleRuns String (Runs stage) of
        Some err \<Rightarrow> Some err
      | None \<Rightarrow> handleStages String stages)"

definition handleFailure :: "(Run \<Rightarrow> string) \<Rightarrow> Plan \<Rightarrow> error option" where
  "handleFailure String plan = handleStages String (Stages plan)"

section \<open>Matrix selection\<close>

text \<open>
  A matrix value is a scalar: an integer, a boolean or a string. \<open>Sprintf_v\<close> is
  \<^verbatim>\<open>fmt.Sprintf("%v", val)\<close> on these: an integer in decimal with a leading minus
  sign when negative, a boolean as \<^verbatim>\<open>true\<close> or \<^verbatim>\<open>false\<close>, a string as it is.
  \<open>natToString\<close> is the decimal numeral, which \<^verbatim>\<open>%d\<close> prints too.
\<close>

datatype val = VInt int | VBool bool | VStr string

fun natToString :: "nat \<Rightarrow> string" where
  "natToString n =
     (if n < 10 then [''0123456789'' ! n]
      else natToString (n div 10) @ [''0123456789'' ! (n mod 10)])"

declare natToString.simps [simp del]

fun Sprintf_v :: "val \<Rightarrow> string" where
  "Sprintf_v (VInt i) = (if i < 0 then CHR ''-'' # natToString (nat (- i)) else natToString (nat i))"
| "Sprintf_v (VBool b) = (if b then ''true'' else ''false'')"
| "Sprintf_v (VStr s) = s"

text \<open>
  A matrix point \<^verbatim>\<open>map[string]interface{}\<close> is iterated by \<^verbatim>\<open>range\<close>, so it is
  the list of its entries, in the order the iteration happens to visit them.
  \<^verbatim>\<open>
  func selectMatrixes(originalMatrixes []map[string]interface{},
                      targetMatrixValues map[string]map[string]bool) []map[string]interface{} {
      matrixes := make([]map[string]interface{}, 0)
      for _, original := range originalMatrixes {
          flag := true
          for key, val := range original {
              if allowedVals, ok := targetMatrixValues[key]; ok {
                  valToString := fmt.Sprintf("%v", val)
                  if _, ok := allowedVals[valToString]; !ok {
                      flag = false
                  }
              }
          }
          if flag {
              matrixes = append(matrixes, original)
          }
      }
      return matrixes
  }
  \<close>
  \<open>entriesLoop\<close> is the inner loop with the variable \<^verbatim>\<open>flag\<close>, \<open>originalsLoop\<close> the
  outer loop with the slice \<^verbatim>\<open>matrixes\<close>.
\<close>

type_synonym matrix = "(string \<times> val) list"

fun entriesLoop :: "targetMatrixValues \<Rightarrow> matrix \<Rightarrow> bool \<Rightarrow> bool" where
  "entriesLoop target [] flag = flag"
| "entriesLoop target ((key, v) # rest) flag =
     entriesLoop target rest
       (case target key of
          Some allowedVals \<Rightarrow>
            (case allowedVals (Sprintf_v v) of None \<Rightarrow> False | Some _ \<Rightarrow> flag)
        | None \<Rightarrow> flag)"

fun originalsLoop :: "targetMatrixValues \<Rightarrow> matrix list \<Rightarrow> matrix list \<Rightarrow> matrix list" where
  "originalsLoop target [] matrixes = matrixes"
| "originalsLoop target (original # rest) matrixes =
     originalsLoop target rest
       (if entriesLoop target original True then matrixes @ [original] else matrixes)"

definition selectMatrixes :: "matrix list \<Rightarrow> targetMatrixValues \<Rightarrow> matrix list" where
  "selectMatrixes originalMatrixes target = originalsLoop target originalMatrixes []"

section \<open>The plan executor\<close>

text \<open>
  \<^verbatim>\<open>RunContext\<close> with the fields that \<^verbatim>\<open>newRunContext\<close> and
  \<^verbatim>\<open>NewPlanExecutor\<close> set (\<^verbatim>\<open>Config\<close>, \<^verbatim>\<open>Run\<close>, \<^verbatim>\<open>EventJSON\<close>,
  \<^verbatim>\<open>Matrix\<close>, \<^verbatim>\<open>Name\<close>, \<^verbatim>\<open>JobName\<close>); the field names carry the prefix
  \<open>rc\<close>. \<^verbatim>\<open>StepResults\<close> starts empty and \<^verbatim>\<open>caller\<close> and \<^verbatim>\<open>ExprEval\<close>
  are only passed on.
\<close>

record RunContext =
  rcConfig :: Config
  rcRun :: Run
  rcEventJSON :: string
  rcMatrix :: matrix
  rcName :: string
  rcJobName :: string

text \<open>
  What runner.go calls in other packages and files:
  \<^item> \<open>RunString\<close> is \<^verbatim>\<open>run.String()\<close>;
  \<^item> \<open>Interpolate rc s\<close> is \<^verbatim>\<open>rc.ExprEval.Interpolate(ctx, s)\<close> for the evaluator
    bound to \<open>rc\<close>;
  \<^item> \<open>RunContextString\<close> is \<^verbatim>\<open>rc.String()\<close>;
  \<^item> \<open>GetMatrixes job\<close> is the result of \<^verbatim>\<open>job.GetMatrixes()\<close> after the
    strategy's matrix node has been evaluated (lines 158 to 163; an error there is only
    logged), paired with the job as these calls leave it: \<^verbatim>\<open>job\<close> is a pointer
    and \<^verbatim>\<open>GetMatrixes\<close> has a pointer receiver.
\<close>

record externals =
  RunString :: "Run \<Rightarrow> string"
  Interpolate :: "RunContext \<Rightarrow> string \<Rightarrow> string"
  RunContextString :: "RunContext \<Rightarrow> string"
  GetMatrixes :: "Job \<Rightarrow> (error + matrix list) \<times> Job"

text \<open>
  \<^verbatim>\<open>
  func (runner *runnerImpl) newRunContext(ctx, run *model.Run, matrix map[string]interface{}) *RunContext {
      rc := &RunContext{Config: runner.config, Run: run, EventJSON: runner.eventJSON,
                        StepResults: ..., Matrix: matrix, caller: runner.caller}
      rc.ExprEval = rc.NewExpressionEvaluator(ctx)
      rc.Name = rc.ExprEval.Interpolate(ctx, run.String())
      return rc
  }
  \<close>
\<close>

definition newRunContext :: "externals \<Rightarrow> runnerImpl \<Rightarrow> Run \<Rightarrow> matrix \<Rightarrow> RunContext" where
  "newRunContext X runner run m =
     (let rc = \<lparr>rcConfig = config runner, rcRun = run, rcEventJSON = eventJSON runner,
                rcMatrix = m, rcName = [], rcJobName = []\<rparr>
      in rc\<lparr>rcName := Interpolate X rc (RunString X run)\<rparr>)"

text \<open>
  The loop of lines 182 to 196 over the matrix points of one Run. \<open>n\<close> is
  \<^verbatim>\<open>len(matrixes)\<close> and \<open>i\<close> the index; the state is the variable
  \<^verbatim>\<open>maxJobNameLen\<close> and the slice \<^verbatim>\<open>stageExecutor\<close>. A job executor is a closure
  over its \<^verbatim>\<open>rc\<close>, so the slice is the list of these run contexts.
  \<^verbatim>\<open>
  for i, matrix := range matrixes {
      rc := runner.newRunContext(ctx, run, matrix)
      rc.JobName = rc.Name
      if len(matrixes) > 1 {
          rc.Name = fmt.Sprintf("%s-%d", rc.Name, i+1)
      }
      if len(rc.String()) > maxJobNameLen {
          maxJobNameLen = len(rc.String())
      }
      stageExecutor = append(stageExecutor, func(ctx context.Context) error {
          jobName := fmt.Sprintf("%-*s", maxJobNameLen, rc.String())
          return rc.Executor()(... WithJobLogger(ctx, rc.Run.JobID, jobName, ...))
      })
  }
  \<close>
\<close>

definition matrixBody :: "externals \<Rightarrow> runnerImpl \<Rightarrow> Run \<Rightarrow> nat \<Rightarrow> nat \<Rightarrow> matrix \<Rightarrow> RunContext" where
  "matrixBody X runner run n i m =
     (let rc = newRunContext X runner run m;
          rc = rc\<lparr>rcJobName := rcName rc\<rparr>
      in if n > 1 then rc\<lparr>rcName := rcName rc @ ''-'' @ natToString (i + 1)\<rparr> else rc)"

fun matrixLoop ::
  "externals \<Rightarrow> runnerImpl \<Rightarrow> Run \<Rightarrow> nat \<Rightarrow> nat \<Rightarrow> matrix list \<Rightarrow> nat \<Rightarrow> RunContext list \<Rightarrow>
   nat \<times> RunContext list" where
  "matrixLoop X runner run n i [] maxJobNameLen stageExecutor = (maxJobNameLen, stageExecutor)"
| "matrixLoop X runner run n i (m # rest) maxJobNameLen stageExecutor =
     (let rc = matrixBody X runner run n i m
      in matrixLoop X runner run n (i + 1) rest
           (if length (RunContextString X rc) > maxJobNameLen
            then length (RunContextString X rc) else maxJobNameLen)
           (stageExecutor @ [rc]))"

text \<open>
  The loop of lines 154 to 198 over the Runs of a stage. Each Run adds one call
  \<^verbatim>\<open>common.NewParallelExecutor(maxParallel, stageExecutor...)\<close> to \<^verbatim>\<open>pipeline\<close>;
  the call is recorded with its two arguments.
  \<^verbatim>\<open>
  var matrixes []map[string]interface{}
  if m, err := job.GetMatrixes(); err != nil {
      log.Errorf(...)
  } else {
      matrixes = selectMatrixes(m, runner.config.Matrix)
  }
  maxParallel := 4
  if job.Strategy != nil {
      maxParallel = job.Strategy.MaxParallel
  }
  if len(matrixes) < maxParallel {
      maxParallel = len(matrixes)
  }
  \<close>
\<close>

record parallelExecutor =
  parallel :: int
  executors :: "RunContext list"

definition runBody :: "externals \<Rightarrow> runnerImpl \<Rightarrow> Run \<Rightarrow> nat \<Rightarrow> nat \<times> parallelExecutor" where
  "runBody X runner run maxJobNameLen =
     (let job = snd (GetMatrixes X (Job run));
          matrixes = (case fst (GetMatrixes X (Job run)) of
                        Inl err \<Rightarrow> []
                      | Inr m \<Rightarrow> selectMatrixes m (Matrix (config runner)));
          maxParallel = (case Strategy job of None \<Rightarrow> 4 | Some strategy \<Rightarrow> MaxParallel strategy);
          maxParallel = (if int (length matrixes) < maxParallel then int (length matrixes)
                         else maxParallel);
          loop = matrixLoop X runner run (length matrixes) 0 matrixes maxJobNameLen []
      in (fst loop, \<lparr>parallel = maxParallel, executors = snd loop\<rparr>))"

fun runsLoop ::
  "externals \<Rightarrow> runnerImpl \<Rightarrow> Run list \<Rightarrow> nat \<Rightarrow> parallelExecutor list \<Rightarrow>
   nat \<times> parallelExecutor list" where
  "runsLoop X runner [] maxJobNameLen pipeline = (maxJobNameLen, pipeline)"
| "runsLoop X runner (run # rest) maxJobNameLen pipeline =
     (let body = runBody X runner run maxJobNameLen
      in runsLoop X runner rest (fst body) (pipeline @ [snd body]))"

text \<open>
  \<^verbatim>\<open>NewPlanExecutor\<close> declares \<^verbatim>\<open>maxJobNameLen := 0\<close> once and builds one closure
  per stage; \<^verbatim>\<open>common.NewPipelineExecutor\<close> invokes them in order, each after the
  one before has returned. A closure runs the loop over its Runs, which constructs the
  run contexts and updates \<^verbatim>\<open>maxJobNameLen\<close>, and only then starts its job executors
  with \<^verbatim>\<open>common.NewParallelExecutor(ncpu, pipeline...)(ctx)\<close> and waits for them.
  A job executor reads \<^verbatim>\<open>maxJobNameLen\<close> when it runs, as the width of
  \<^verbatim>\<open>fmt.Sprintf("%-*s", maxJobNameLen, rc.String())\<close>; nothing writes the variable
  while job executors run. \<open>stageRun\<close> records what one closure does: the
  \<^verbatim>\<open>pipeline\<close> it builds and the \<open>width\<close> its job executors read.
  \<open>NewPlanExecutor\<close> lists this for the stages in order; a stage that fails stops the
  pipeline, and the stages that ran are then a prefix of the list. The bound
  \<^verbatim>\<open>ncpu\<close> of the stage-level call comes from \<^verbatim>\<open>container.GetHostInfo\<close> and
  is not recorded. The executor that \<^verbatim>\<open>NewPlanExecutor\<close> returns ends with
  \<^verbatim>\<open>.Then(handleFailure(plan))\<close>, which is \<open>handleFailure\<close> above.
\<close>

record stageRun =
  pipeline :: "parallelExecutor list"
  width :: nat

fun stagesLoop :: "externals \<Rightarrow> runnerImpl \<Rightarrow> Stage list \<Rightarrow> nat \<Rightarrow> stageRun list" where
  "stagesLoop X runner [] maxJobNameLen = []"
| "stagesLoop X runner (stage # rest) maxJobNameLen =
     (let loop = runsLoop X runner (Runs stage) maxJobNameLen []
      in \<lparr>pipeline = snd loop, width = fst loop\<rparr> # stagesLoop X runner rest (fst loop))"

definition NewPlanExecutor :: "externals \<Rightarrow> runnerImpl \<Rightarrow> Plan \<Rightarrow> stageRun list" where
  "NewPlanExecutor X runner plan = stagesLoop X runner (Stages plan) 0"

subsection \<open>Reference notions for the statements\<close>

text \<open>
  The run contexts that a list of stage runs constructed, the lengths of their formatted
  names, and the greatest of a list of lengths (0 for none).
\<close>

definition constructed :: "stageRun list \<Rightarrow> RunContext list" where
  "constructed runs = concat (map (\<lambda>s. concat (map executors (pipeline s))) runs)"

definition nameLens :: "externals \<Rightarrow> stageRun list \<Rightarrow> nat list" where
  "nameLens X runs = map (\<lambda>rc. length (RunContextString X rc)) (constructed runs)"

definition greatest :: "nat list \<Rightarrow> nat" where
  "greatest ns = foldr max ns 0"

section \<open>Token resolution\<close>

text \<open>
  C6. For every configuration, \<open>GetToken\<close> is the secret \<^verbatim>\<open>GITEA_TOKEN\<close> when that
  is not the empty string and the secret \<^verbatim>\<open>GITHUB_TOKEN\<close> otherwise; with no
  secrets at all it is the empty string.
\<close>

theorem GetToken_resolution:
  "GetToken c =
     (if index (Secrets c) ''GITEA_TOKEN'' \<noteq> [] then index (Secrets c) ''GITEA_TOKEN''
      else index (Secrets c) ''GITHUB_TOKEN'')
   \<and> GetToken (c\<lparr>Secrets := Map.empty\<rparr>) = []"
  by (simp add: GetToken_def index_def)

theorem GetToken_resolution_witness:
  "GetToken \<lparr>EventPath = [], Inputs = Map.empty,
             Secrets = [''GITEA_TOKEN'' \<mapsto> ''g'', ''GITHUB_TOKEN'' \<mapsto> ''h''],
             Matrix = Map.empty, EventJSON = [], ContainerNetworkMode = []\<rparr> = ''g''
   \<and> GetToken \<lparr>EventPath = [], Inputs = Map.empty,
             Secrets = [''GITHUB_TOKEN'' \<mapsto> ''h''],
             Matrix = Map.empty, EventJSON = [], ContainerNetworkMode = []\<rparr> = ''h''"
  using GetToken_resolution [of "\<lparr>EventPath = [], Inputs = Map.empty,
             Secrets = [''GITEA_TOKEN'' \<mapsto> ''g'', ''GITHUB_TOKEN'' \<mapsto> ''h''],
             Matrix = Map.empty, EventJSON = [], ContainerNetworkMode = []\<rparr>"]
        GetToken_resolution [of "\<lparr>EventPath = [], Inputs = Map.empty,
             Secrets = [''GITHUB_TOKEN'' \<mapsto> ''h''],
             Matrix = Map.empty, EventJSON = [], ContainerNetworkMode = []\<rparr>"]
  by (simp add: index_def)

section \<open>Network mode classification\<close>

lemma Index_single:
  "Index s [x] = (if x \<in> set s then Some (length (takeWhile (\<lambda>y. y \<noteq> x) s)) else None)"
  by (induction s) auto

lemma SplitN_single_2:
  "SplitN s [x] 2 =
     (if x \<in> set s then [takeWhile (\<lambda>y. y \<noteq> x) s, tl (dropWhile (\<lambda>y. y \<noteq> x) s)] else [s])"
proof (cases s)
  case Nil
  then show ?thesis by (simp add: SplitN_def)
next
  case (Cons a list)
  let ?n = "length (takeWhile (\<lambda>y. y \<noteq> x) s)"
  from Cons have "min 2 (length s + 1) - 1 = Suc 0" by simp
  then have split: "SplitN s [x] 2 = genSplit (Suc 0) s [x]" by (simp add: SplitN_def)
  have tk: "take ?n s = takeWhile (\<lambda>y. y \<noteq> x) s"
    by (rule takeWhile_eq_take [symmetric])
  have "drop (?n + 1) s = tl (drop ?n s)" by (simp add: drop_Suc tl_drop)
  then have dr: "drop (?n + length [x]) s = tl (dropWhile (\<lambda>y. y \<noteq> x) s)"
    by (simp add: dropWhile_eq_drop [symmetric])
  show ?thesis
    unfolding split genSplit.simps Index_single using tk dr by simp
qed

lemma IsNetworkModeContainer_iff:
  "IsNetworkModeContainer c \<longleftrightarrow>
     CHR '':'' \<in> set (ContainerNetworkMode c) \<and>
     takeWhile (\<lambda>y. y \<noteq> CHR '':'') (ContainerNetworkMode c) = ''container''"
  by (simp add: IsNetworkModeContainer_def SplitN_single_2 Let_def)

lemma container_has_colon:
  "IsNetworkModeContainer c \<Longrightarrow> CHR '':'' \<in> set (ContainerNetworkMode c)"
  by (simp add: IsNetworkModeContainer_iff)

lemma container_excludes_named:
  assumes "IsNetworkModeContainer c"
  shows "\<not> IsNetworkModeHost c" and "\<not> IsNetworkModeNone c" and "\<not> IsNetworkModeBridge c"
  using container_has_colon [OF assms]
  by (auto simp: IsNetworkModeHost_def IsNetworkModeNone_def IsNetworkModeBridge_def)

text \<open>
  C7. The five predicates partition the network modes: for every configuration exactly
  one of \<open>IsNetworkModeHost\<close>, \<open>IsNetworkModeNone\<close>, \<open>IsNetworkModeBridge\<close>,
  \<open>IsNetworkModeContainer\<close> and \<open>IsNetworkUserDefined\<close> holds. The empty mode is
  user-defined, \<^verbatim>\<open>host\<close> is host, \<^verbatim>\<open>none\<close> is none, \<^verbatim>\<open>bridge\<close> is bridge,
  \<^verbatim>\<open>container:abc\<close> is container and \<^verbatim>\<open>my-net\<close> is user-defined.
\<close>

theorem network_mode_partition:
  "count_list [IsNetworkModeHost c, IsNetworkModeNone c, IsNetworkModeBridge c,
               IsNetworkModeContainer c, IsNetworkUserDefined c] True = 1
   \<and> IsNetworkUserDefined (c\<lparr>ContainerNetworkMode := []\<rparr>)
   \<and> IsNetworkModeHost (c\<lparr>ContainerNetworkMode := ''host''\<rparr>)
   \<and> IsNetworkModeNone (c\<lparr>ContainerNetworkMode := ''none''\<rparr>)
   \<and> IsNetworkModeBridge (c\<lparr>ContainerNetworkMode := ''bridge''\<rparr>)
   \<and> IsNetworkModeContainer (c\<lparr>ContainerNetworkMode := ''container:abc''\<rparr>)
   \<and> IsNetworkUserDefined (c\<lparr>ContainerNetworkMode := ''my-net''\<rparr>)"
proof -
  have one: "count_list [IsNetworkModeHost c, IsNetworkModeNone c, IsNetworkModeBridge c,
               IsNetworkModeContainer c, IsNetworkUserDefined c] True = 1"
  proof (cases "IsNetworkModeContainer c")
    case True
    then show ?thesis
      using container_excludes_named [OF True] by (simp add: IsNetworkUserDefined_def)
  next
    case False
    then show ?thesis
      by (auto simp: IsNetworkUserDefined_def IsNetworkModeHost_def IsNetworkModeNone_def
            IsNetworkModeBridge_def)
  qed
  have ex: "IsNetworkUserDefined (c\<lparr>ContainerNetworkMode := []\<rparr>)"
    "IsNetworkModeHost (c\<lparr>ContainerNetworkMode := ''host''\<rparr>)"
    "IsNetworkModeNone (c\<lparr>ContainerNetworkMode := ''none''\<rparr>)"
    "IsNetworkModeBridge (c\<lparr>ContainerNetworkMode := ''bridge''\<rparr>)"
    "IsNetworkModeContainer (c\<lparr>ContainerNetworkMode := ''container:abc''\<rparr>)"
    "IsNetworkUserDefined (c\<lparr>ContainerNetworkMode := ''my-net''\<rparr>)"
    by (simp_all add: IsNetworkUserDefined_def IsNetworkModeHost_def IsNetworkModeNone_def
            IsNetworkModeBridge_def IsNetworkModeContainer_iff)
  from one ex show ?thesis by simp
qed

text \<open>
  C10. \<open>IsNetworkModeContainer\<close> holds exactly when the mode contains a colon and the
  text before its first colon is \<^verbatim>\<open>container\<close>. So \<^verbatim>\<open>container:\<close>, with an empty
  id, is container mode and not user-defined, and \<^verbatim>\<open>container\<close> without a colon is
  user-defined.
\<close>

theorem container_mode_prefix:
  "(IsNetworkModeContainer c \<longleftrightarrow>
      CHR '':'' \<in> set (ContainerNetworkMode c) \<and>
      takeWhile (\<lambda>y. y \<noteq> CHR '':'') (ContainerNetworkMode c) = ''container'')
   \<and> IsNetworkModeContainer (c\<lparr>ContainerNetworkMode := ''container:''\<rparr>)
   \<and> \<not> IsNetworkUserDefined (c\<lparr>ContainerNetworkMode := ''container:''\<rparr>)
   \<and> \<not> IsNetworkModeContainer (c\<lparr>ContainerNetworkMode := ''container''\<rparr>)
   \<and> IsNetworkUserDefined (c\<lparr>ContainerNetworkMode := ''container''\<rparr>)"
  by (simp add: IsNetworkModeContainer_iff IsNetworkUserDefined_def IsNetworkModeHost_def
        IsNetworkModeNone_def IsNetworkModeBridge_def)

section \<open>The failure aggregator reports the first failing Run\<close>

lemma find_append:
  "find P (xs @ ys) = (case find P xs of None \<Rightarrow> find P ys | Some x \<Rightarrow> Some x)"
  by (induction xs) simp_all

lemma handleRuns_find:
  "handleRuns String runs =
     map_option (\<lambda>run. failed (String run)) (find (\<lambda>run. Result (Job run) = ''failure'') runs)"
  by (induction runs) simp_all

lemma handleStages_find:
  "handleStages String stages =
     map_option (\<lambda>run. failed (String run))
       (find (\<lambda>run. Result (Job run) = ''failure'') (concat (map Runs stages)))"
proof (induction stages)
  case Nil
  then show ?case by simp
next
  case (Cons stage stages)
  show ?case
  proof (cases "find (\<lambda>run. Result (Job run) = ''failure'') (Runs stage)")
    case None
    then show ?thesis using Cons by (simp add: handleRuns_find find_append)
  next
    case (Some run)
    then show ?thesis by (simp add: handleRuns_find find_append)
  qed
qed

text \<open>
  C1. \<open>handleFailure\<close> returns an error if and only if some Run of some stage of the
  plan has the result \<^verbatim>\<open>failure\<close>; the error it returns has the message
  \<^verbatim>\<open>Job '<name>' failed\<close>, where \<^verbatim>\<open><name>\<close> is \<^verbatim>\<open>run.String()\<close> of the first
  such Run in plan order (the stages in order, the Runs of a stage in order).
\<close>

theorem handleFailure_first_failing:
  "(handleFailure String plan \<noteq> None \<longleftrightarrow>
      (\<exists>stage \<in> set (Stages plan). \<exists>run \<in> set (Runs stage). Result (Job run) = ''failure''))
   \<and> handleFailure String plan =
       map_option (\<lambda>run. Error (''Job '' @ [CHR 0x27] @ String run @ [CHR 0x27] @ '' failed''))
         (find (\<lambda>run. Result (Job run) = ''failure'') (concat (map Runs (Stages plan))))"
  by (auto simp: handleFailure_def handleStages_find find_None_iff failed_def)

theorem handleFailure_first_failing_witness:
  "handleFailure JobID
     \<lparr>Stages =
        [\<lparr>Runs = [\<lparr>JobID = ''a'', Job = \<lparr>Strategy = None, Result = ''success''\<rparr>\<rparr>,
                  \<lparr>JobID = ''b'', Job = \<lparr>Strategy = None, Result = ''failure''\<rparr>\<rparr>]\<rparr>,
         \<lparr>Runs = [\<lparr>JobID = ''c'', Job = \<lparr>Strategy = None, Result = ''failure''\<rparr>\<rparr>]\<rparr>]\<rparr>
   = Some (Error [CHR ''J'', CHR ''o'', CHR ''b'', CHR '' '', CHR 0x27, CHR ''b'', CHR 0x27,
                  CHR '' '', CHR ''f'', CHR ''a'', CHR ''i'', CHR ''l'', CHR ''e'', CHR ''d''])
   \<and> handleFailure JobID
     \<lparr>Stages =
        [\<lparr>Runs = [\<lparr>JobID = ''a'', Job = \<lparr>Strategy = None, Result = ''success''\<rparr>\<rparr>]\<rparr>,
         \<lparr>Runs = [\<lparr>JobID = ''c'', Job = \<lparr>Strategy = None, Result = ''skipped''\<rparr>\<rparr>]\<rparr>]\<rparr>
   = None"
  using handleFailure_first_failing [of JobID
     "\<lparr>Stages =
        [\<lparr>Runs = [\<lparr>JobID = ''a'', Job = \<lparr>Strategy = None, Result = ''success''\<rparr>\<rparr>,
                  \<lparr>JobID = ''b'', Job = \<lparr>Strategy = None, Result = ''failure''\<rparr>\<rparr>]\<rparr>,
         \<lparr>Runs = [\<lparr>JobID = ''c'', Job = \<lparr>Strategy = None, Result = ''failure''\<rparr>\<rparr>]\<rparr>]\<rparr>"]
    handleFailure_first_failing [of JobID
     "\<lparr>Stages =
        [\<lparr>Runs = [\<lparr>JobID = ''a'', Job = \<lparr>Strategy = None, Result = ''success''\<rparr>\<rparr>]\<rparr>,
         \<lparr>Runs = [\<lparr>JobID = ''c'', Job = \<lparr>Strategy = None, Result = ''skipped''\<rparr>\<rparr>]\<rparr>]\<rparr>"]
  by simp

section \<open>Properties of the matrix selection\<close>

lemma entriesLoop_conj:
  "entriesLoop target p flag \<longleftrightarrow>
     flag \<and> (\<forall>(key, v) \<in> set p.
               case target key of None \<Rightarrow> True
               | Some allowedVals \<Rightarrow> allowedVals (Sprintf_v v) \<noteq> None)"
proof (induction p arbitrary: flag)
  case Nil
  then show ?case by simp
next
  case (Cons e p)
  obtain key v where e: "e = (key, v)" by (cases e)
  show ?case
  proof (cases "target key")
    case None
    then show ?thesis by (simp add: e Cons.IH)
  next
    case (Some allowedVals)
    then show ?thesis by (cases "allowedVals (Sprintf_v v)") (simp_all add: e Cons.IH)
  qed
qed

lemma originalsLoop_filter:
  "originalsLoop target ms acc = acc @ filter (\<lambda>p. entriesLoop target p True) ms"
  by (induction ms arbitrary: acc) simp_all

lemma selectMatrixes_filter:
  "selectMatrixes ms target = filter (\<lambda>p. entriesLoop target p True) ms"
  by (simp add: selectMatrixes_def originalsLoop_filter)

lemma entriesLoop_empty: "entriesLoop Map.empty p True"
  by (simp add: entriesLoop_conj)

lemma entriesLoop_absent:
  assumes "key \<notin> fst ` set p"
  shows "entriesLoop (target(key \<mapsto> allowedVals)) p True = entriesLoop target p True"
proof -
  have "\<And>k v. (k, v) \<in> set p \<Longrightarrow> k \<noteq> key"
    using assms by force
  then show ?thesis
    unfolding entriesLoop_conj by auto
qed

lemma natToString_digits: "set (natToString n) \<subseteq> set ''0123456789''"
proof (induction n rule: natToString.induct)
  case (1 n)
  have d: "\<And>k. k < 10 \<Longrightarrow> ''0123456789'' ! k \<in> set ''0123456789''"
    by (rule nth_mem) simp
  show ?case
  proof (cases "n < 10")
    case True
    then show ?thesis using d [of n] by (subst natToString.simps) simp
  next
    case False
    have "n mod 10 < 10" by simp
    from d [OF this] 1 False show ?thesis
      by (subst natToString.simps) simp
  qed
qed

text \<open>
  C3, as the code has it. \<open>selectMatrixes\<close> returns, in their order, the candidate
  points such that for every dimension that the point has and that is present in the
  filter, the value of the point, formatted by \<open>Sprintf_v\<close>, is a key of the filter's
  map of allowed values for that dimension. Dimensions absent from the filter impose no
  constraint. The formatter writes an integer without a decimal point, a boolean as
  \<^verbatim>\<open>true\<close> or \<^verbatim>\<open>false\<close> and a string as it is.
\<close>

theorem selectMatrixes_keeps:
  "selectMatrixes originalMatrixes target =
     filter (\<lambda>point. \<forall>(key, v) \<in> set point. \<forall>allowedVals.
                target key = Some allowedVals \<longrightarrow> Sprintf_v v \<in> dom allowedVals)
       originalMatrixes
   \<and> CHR ''.'' \<notin> set (Sprintf_v (VInt i))
   \<and> Sprintf_v (VBool True) = ''true'' \<and> Sprintf_v (VBool False) = ''false''
   \<and> Sprintf_v (VStr s) = s"
proof -
  have keep: "\<And>p. entriesLoop target p True \<longleftrightarrow>
      (\<forall>(key, v) \<in> set p. \<forall>allowedVals.
          target key = Some allowedVals \<longrightarrow> Sprintf_v v \<in> dom allowedVals)"
    unfolding entriesLoop_conj by (auto split: option.splits)
  have "CHR ''.'' \<notin> set ''0123456789''" by simp
  then have dot: "\<And>n. CHR ''.'' \<notin> set (natToString n)"
    using natToString_digits by blast
  have "CHR ''.'' \<notin> set (Sprintf_v (VInt i))"
    using dot by simp
  then show ?thesis
    by (simp add: selectMatrixes_filter keep)
qed

theorem selectMatrixes_keeps_witness:
  "selectMatrixes
     [[(''os'', VStr ''a''), (''node'', VInt 16)], [(''os'', VStr ''b''), (''node'', VInt 16)],
      [(''os'', VStr ''c''), (''node'', VInt 18)], [(''os'', VStr ''c''), (''node'', VInt 16)]]
     [''os'' \<mapsto> [''a'' \<mapsto> True, ''c'' \<mapsto> True], ''node'' \<mapsto> [''16'' \<mapsto> True]]
   = [[(''os'', VStr ''a''), (''node'', VInt 16)], [(''os'', VStr ''c''), (''node'', VInt 16)]]"
  using selectMatrixes_keeps [of
     "[[(''os'', VStr ''a''), (''node'', VInt 16)], [(''os'', VStr ''b''), (''node'', VInt 16)],
       [(''os'', VStr ''c''), (''node'', VInt 18)], [(''os'', VStr ''c''), (''node'', VInt 16)]]"
     "[''os'' \<mapsto> [''a'' \<mapsto> True, ''c'' \<mapsto> True], ''node'' \<mapsto> [''16'' \<mapsto> True]]"]
  by (simp add: natToString.simps)

text \<open>
  C3, as the claim states it, quantifies over the dimensions of the filter. The filter
  below has the dimension \<^verbatim>\<open>arch\<close>, the point has no value for it, so no value of
  the point for \<^verbatim>\<open>arch\<close> is among the allowed ones; the point is kept all the same.
\<close>

theorem selectMatrixes_filter_dimension_counterexample:
  "selectMatrixes [[(''os'', VStr ''a'')]] [''arch'' \<mapsto> [''x64'' \<mapsto> True]]
     = [[(''os'', VStr ''a'')]]
   \<and> ''arch'' \<in> dom [''arch'' \<mapsto> [''x64'' \<mapsto> True]]
   \<and> map_of [(''os'', VStr ''a'')] ''arch'' = None"
  by (simp add: selectMatrixes_def)

text \<open>
  C4. For every list of points \<open>M\<close> and every filter \<open>F\<close>, \<open>selectMatrixes M F\<close> is a
  sub-list, in the same order, of \<open>selectMatrixes M\<close> of the empty filter, and the
  latter is \<open>M\<close> itself.
\<close>

theorem selectMatrixes_monotone:
  "subseq (selectMatrixes M F) (selectMatrixes M Map.empty)
   \<and> selectMatrixes M Map.empty = M"
  by (simp add: selectMatrixes_filter entriesLoop_empty)

text \<open>
  C9. A filter dimension that a candidate point does not have imposes no constraint on
  that point: adding such a dimension to the filter, with any map of allowed values,
  even the empty one, does not change whether the point is selected. Membership is only
  checked for the dimensions the point has, so the point is kept as soon as its other
  filtered dimensions pass.
\<close>

theorem absent_dimension_unconstrained:
  "key \<notin> fst ` set point \<Longrightarrow>
     (point \<in> set (selectMatrixes M (target(key \<mapsto> allowedVals))) \<longleftrightarrow>
      point \<in> set (selectMatrixes M target))"
  by (simp add: selectMatrixes_filter entriesLoop_absent)

theorem absent_dimension_unconstrained_witness:
  "[(''os'', VStr ''a'')] \<in> set (selectMatrixes
       [[(''os'', VStr ''a'')], [(''os'', VStr ''b''), (''arch'', VStr ''arm'')]]
       [''os'' \<mapsto> [''a'' \<mapsto> True, ''b'' \<mapsto> True], ''arch'' \<mapsto> Map.empty])"
proof -
  have h: "''arch'' \<notin> fst ` set [(''os'', VStr ''a'')]"
    by simp
  show ?thesis
    using absent_dimension_unconstrained [OF h, of
        "[[(''os'', VStr ''a'')], [(''os'', VStr ''b''), (''arch'', VStr ''arm'')]]"
        "[''os'' \<mapsto> [''a'' \<mapsto> True, ''b'' \<mapsto> True]]" Map.empty]
    by (simp add: selectMatrixes_def)
qed

section \<open>Event materialization\<close>

text \<open>
  C5. \<open>configure\<close> materializes the event as follows. When \<^verbatim>\<open>EventJSON\<close> is not
  empty the event is \<^verbatim>\<open>EventJSON\<close>, whatever \<^verbatim>\<open>EventPath\<close> is. Otherwise, when
  \<^verbatim>\<open>EventPath\<close> is not empty, the event is the contents of that file, and when the
  file cannot be read the error is returned and no runner. Otherwise, when
  \<^verbatim>\<open>Inputs\<close> is not empty, the event is the JSON text of the map with the single
  key \<^verbatim>\<open>inputs\<close> bound to \<^verbatim>\<open>Inputs\<close>. Otherwise the event is \<^verbatim>\<open>{}\<close>.
\<close>

theorem configure_event:
  "(EventJSON (config r) \<noteq> [] \<longrightarrow>
      configure ReadFile Marshal r = Inr (r\<lparr>eventJSON := EventJSON (config r)\<rparr>))
   \<and> (EventJSON (config r) = [] \<and> EventPath (config r) \<noteq> [] \<longrightarrow>
      configure ReadFile Marshal r =
        (case ReadFile (EventPath (config r)) of
           Inl err \<Rightarrow> Inl err
         | Inr contents \<Rightarrow> Inr (r\<lparr>eventJSON := contents\<rparr>)))
   \<and> (EventJSON (config r) = [] \<and> EventPath (config r) = [] \<and> Inputs (config r) \<noteq> Map.empty \<longrightarrow>
      configure ReadFile Marshal r =
        (case Marshal [''inputs'' \<mapsto> Inputs (config r)] of
           Inl err \<Rightarrow> Inl err
         | Inr s \<Rightarrow> Inr (r\<lparr>eventJSON := s\<rparr>)))
   \<and> (EventJSON (config r) = [] \<and> EventPath (config r) = [] \<and> Inputs (config r) = Map.empty \<longrightarrow>
      configure ReadFile Marshal r = Inr (r\<lparr>eventJSON := ''{}''\<rparr>))"
  by (simp add: configure_def Let_def split: sum.splits)

theorem configure_event_witness:
  \<open>configure (\<lambda>p. if p = ''/tmp/x.json'' then Inr ''{"b":2}'' else Inl (Error ''no such file''))
      (\<lambda>m. Inr ''{"inputs":{"x":"1"}}'')
      \<lparr>config = \<lparr>EventPath = ''/tmp/x.json'', Inputs = [''x'' \<mapsto> ''1''], Secrets = Map.empty,
                  Matrix = Map.empty, EventJSON = ''{"a":1}'', ContainerNetworkMode = []\<rparr>,
       eventJSON = []\<rparr>
    = Inr \<lparr>config = \<lparr>EventPath = ''/tmp/x.json'', Inputs = [''x'' \<mapsto> ''1''], Secrets = Map.empty,
                  Matrix = Map.empty, EventJSON = ''{"a":1}'', ContainerNetworkMode = []\<rparr>,
           eventJSON = ''{"a":1}''\<rparr>
   \<and> configure (\<lambda>p. if p = ''/tmp/x.json'' then Inr ''{"b":2}'' else Inl (Error ''no such file''))
      (\<lambda>m. Inr ''{"inputs":{"x":"1"}}'')
      \<lparr>config = \<lparr>EventPath = ''/tmp/x.json'', Inputs = [''x'' \<mapsto> ''1''], Secrets = Map.empty,
                  Matrix = Map.empty, EventJSON = [], ContainerNetworkMode = []\<rparr>,
       eventJSON = []\<rparr>
    = Inr \<lparr>config = \<lparr>EventPath = ''/tmp/x.json'', Inputs = [''x'' \<mapsto> ''1''], Secrets = Map.empty,
                  Matrix = Map.empty, EventJSON = [], ContainerNetworkMode = []\<rparr>,
           eventJSON = ''{"b":2}''\<rparr>
   \<and> configure (\<lambda>p. if p = ''/tmp/x.json'' then Inr ''{"b":2}'' else Inl (Error ''no such file''))
      (\<lambda>m. Inr ''{"inputs":{"x":"1"}}'')
      \<lparr>config = \<lparr>EventPath = ''/missing'', Inputs = [''x'' \<mapsto> ''1''], Secrets = Map.empty,
                  Matrix = Map.empty, EventJSON = [], ContainerNetworkMode = []\<rparr>,
       eventJSON = []\<rparr>
    = Inl (Error ''no such file'')
   \<and> configure (\<lambda>p. if p = ''/tmp/x.json'' then Inr ''{"b":2}'' else Inl (Error ''no such file''))
      (\<lambda>m. Inr ''{"inputs":{"x":"1"}}'')
      \<lparr>config = \<lparr>EventPath = [], Inputs = [''x'' \<mapsto> ''1''], Secrets = Map.empty,
                  Matrix = Map.empty, EventJSON = [], ContainerNetworkMode = []\<rparr>,
       eventJSON = []\<rparr>
    = Inr \<lparr>config = \<lparr>EventPath = [], Inputs = [''x'' \<mapsto> ''1''], Secrets = Map.empty,
                  Matrix = Map.empty, EventJSON = [], ContainerNetworkMode = []\<rparr>,
           eventJSON = ''{"inputs":{"x":"1"}}''\<rparr>
   \<and> configure (\<lambda>p. if p = ''/tmp/x.json'' then Inr ''{"b":2}'' else Inl (Error ''no such file''))
      (\<lambda>m. Inr ''{"inputs":{"x":"1"}}'')
      \<lparr>config = \<lparr>EventPath = [], Inputs = Map.empty, Secrets = Map.empty,
                  Matrix = Map.empty, EventJSON = [], ContainerNetworkMode = []\<rparr>,
       eventJSON = []\<rparr>
    = Inr \<lparr>config = \<lparr>EventPath = [], Inputs = Map.empty, Secrets = Map.empty,
                  Matrix = Map.empty, EventJSON = [], ContainerNetworkMode = []\<rparr>,
           eventJSON = ''{}''\<rparr>\<close>
  using
    configure_event [of
      \<open>\<lparr>config = \<lparr>EventPath = ''/tmp/x.json'', Inputs = [''x'' \<mapsto> ''1''], Secrets = Map.empty,
                  Matrix = Map.empty, EventJSON = ''{"a":1}'', ContainerNetworkMode = []\<rparr>,
        eventJSON = []\<rparr>\<close>
      \<open>\<lambda>p. if p = ''/tmp/x.json'' then Inr ''{"b":2}'' else Inl (Error ''no such file'')\<close>
      \<open>\<lambda>m. Inr ''{"inputs":{"x":"1"}}''\<close>]
    configure_event [of
      \<open>\<lparr>config = \<lparr>EventPath = ''/tmp/x.json'', Inputs = [''x'' \<mapsto> ''1''], Secrets = Map.empty,
                  Matrix = Map.empty, EventJSON = [], ContainerNetworkMode = []\<rparr>,
        eventJSON = []\<rparr>\<close>
      \<open>\<lambda>p. if p = ''/tmp/x.json'' then Inr ''{"b":2}'' else Inl (Error ''no such file'')\<close>
      \<open>\<lambda>m. Inr ''{"inputs":{"x":"1"}}''\<close>]
    configure_event [of
      \<open>\<lparr>config = \<lparr>EventPath = ''/missing'', Inputs = [''x'' \<mapsto> ''1''], Secrets = Map.empty,
                  Matrix = Map.empty, EventJSON = [], ContainerNetworkMode = []\<rparr>,
        eventJSON = []\<rparr>\<close>
      \<open>\<lambda>p. if p = ''/tmp/x.json'' then Inr ''{"b":2}'' else Inl (Error ''no such file'')\<close>
      \<open>\<lambda>m. Inr ''{"inputs":{"x":"1"}}''\<close>]
    configure_event [of
      \<open>\<lparr>config = \<lparr>EventPath = [], Inputs = [''x'' \<mapsto> ''1''], Secrets = Map.empty,
                  Matrix = Map.empty, EventJSON = [], ContainerNetworkMode = []\<rparr>,
        eventJSON = []\<rparr>\<close>
      \<open>\<lambda>p. if p = ''/tmp/x.json'' then Inr ''{"b":2}'' else Inl (Error ''no such file'')\<close>
      \<open>\<lambda>m. Inr ''{"inputs":{"x":"1"}}''\<close>]
    configure_event [of
      \<open>\<lparr>config = \<lparr>EventPath = [], Inputs = Map.empty, Secrets = Map.empty,
                  Matrix = Map.empty, EventJSON = [], ContainerNetworkMode = []\<rparr>,
        eventJSON = []\<rparr>\<close>
      \<open>\<lambda>p. if p = ''/tmp/x.json'' then Inr ''{"b":2}'' else Inl (Error ''no such file'')\<close>
      \<open>\<lambda>m. Inr ''{"inputs":{"x":"1"}}''\<close>]
  by simp

section \<open>Parallelism bounds and padding widths of the plan executor\<close>

lemma greatest_Nil: "greatest [] = 0"
  by (simp add: greatest_def)

lemma greatest_Cons: "greatest (n # ns) = max n (greatest ns)"
  by (simp add: greatest_def)

lemma greatest_append: "greatest (ms @ ns) = max (greatest ms) (greatest ns)"
  by (induction ms) (simp_all add: greatest_Nil greatest_Cons max.assoc)

lemma greatest_ge: "n \<in> set ns \<Longrightarrow> n \<le> greatest ns"
  by (induction ns) (auto simp: greatest_Cons)

lemma rcMatrix_matrixBody: "rcMatrix (matrixBody X runner run n i m) = m"
  by (simp add: matrixBody_def newRunContext_def Let_def)

lemma matrixLoop_snd:
  "snd (matrixLoop X runner run n i ms w acc) = acc @ snd (matrixLoop X runner run n i ms 0 [])"
proof (induction ms arbitrary: i w acc)
  case Nil
  then show ?case by simp
next
  case (Cons m ms)
  show ?case
    by (simp add: Let_def Cons.IH [of "Suc i" _ "acc @ _"] Cons.IH [of "Suc i" _ "[_]"])
qed

lemma matrixLoop_fst:
  "fst (matrixLoop X runner run n i ms w acc) =
     max w (greatest (map (\<lambda>rc. length (RunContextString X rc))
                        (snd (matrixLoop X runner run n i ms 0 []))))"
proof (induction ms arbitrary: i w acc)
  case Nil
  then show ?case by (simp add: greatest_Nil)
next
  case (Cons m ms)
  let ?rc = "matrixBody X runner run n i m"
  have s: "snd (matrixLoop X runner run n i (m # ms) 0 []) =
             ?rc # snd (matrixLoop X runner run n (Suc i) ms 0 [])"
    using matrixLoop_snd [of X runner run n "Suc i" ms _ "[?rc]"] by (simp add: Let_def)
  have f: "fst (matrixLoop X runner run n i (m # ms) w acc) =
             max (max w (length (RunContextString X ?rc)))
               (greatest (map (\<lambda>rc. length (RunContextString X rc))
                            (snd (matrixLoop X runner run n (Suc i) ms 0 []))))"
    by (simp add: Let_def Cons.IH max_def)
  show ?case
    unfolding f s by (simp add: greatest_Cons max.assoc)
qed

lemma matrixLoop_matrixes:
  "map rcMatrix (snd (matrixLoop X runner run n i ms w acc)) = map rcMatrix acc @ ms"
proof (induction ms arbitrary: i w acc)
  case Nil
  then show ?case by simp
next
  case (Cons m ms)
  show ?case by (simp add: Let_def Cons.IH rcMatrix_matrixBody)
qed

lemma runBody_snd: "snd (runBody X runner run w) = snd (runBody X runner run 0)"
  by (simp add: runBody_def Let_def matrixLoop_snd [of _ _ _ _ _ _ w "[]"])

lemma runBody_fst:
  "fst (runBody X runner run w) =
     max w (greatest (map (\<lambda>rc. length (RunContextString X rc))
                        (executors (snd (runBody X runner run 0)))))"
  by (simp add: runBody_def Let_def matrixLoop_fst [of _ _ _ _ _ _ w "[]"])

lemma runBody_parallel:
  "parallel (snd (runBody X runner run w)) =
     min (case Strategy (snd (GetMatrixes X (Job run))) of
            None \<Rightarrow> 4 | Some strategy \<Rightarrow> MaxParallel strategy)
         (int (length (case fst (GetMatrixes X (Job run)) of
                         Inl err \<Rightarrow> []
                       | Inr m \<Rightarrow> selectMatrixes m (Matrix (config runner)))))"
  by (simp add: runBody_def Let_def min_def)

lemma runBody_matrixes:
  "map rcMatrix (executors (snd (runBody X runner run w))) =
     (case fst (GetMatrixes X (Job run)) of
        Inl err \<Rightarrow> []
      | Inr m \<Rightarrow> selectMatrixes m (Matrix (config runner)))"
  by (simp add: runBody_def Let_def matrixLoop_matrixes)

lemma runsLoop_snd:
  "snd (runsLoop X runner runs w pl) = pl @ map (\<lambda>run. snd (runBody X runner run 0)) runs"
proof (induction runs arbitrary: w pl)
  case Nil
  then show ?case by simp
next
  case (Cons run runs)
  show ?case
    by (simp add: Let_def Cons.IH runBody_snd [of X runner run w])
qed

lemma runsLoop_fst:
  "fst (runsLoop X runner runs w pl) =
     max w (greatest (map (\<lambda>rc. length (RunContextString X rc))
              (concat (map (\<lambda>run. executors (snd (runBody X runner run 0))) runs))))"
proof (induction runs arbitrary: w pl)
  case Nil
  then show ?case by (simp add: greatest_Nil)
next
  case (Cons run runs)
  show ?case
    by (simp add: Let_def Cons.IH runBody_fst [of X runner run w] greatest_append max.assoc)
qed

lemma length_stagesLoop: "length (stagesLoop X runner stages w) = length stages"
  by (induction stages arbitrary: w) (simp_all add: Let_def)

lemma stagesLoop_pipeline:
  "k < length stages \<Longrightarrow>
     pipeline (stagesLoop X runner stages w ! k) =
       map (\<lambda>run. snd (runBody X runner run 0)) (Runs (stages ! k))"
proof (induction stages arbitrary: w k)
  case Nil
  then show ?case by simp
next
  case (Cons stage stages)
  show ?case
  proof (cases k)
    case 0
    then show ?thesis by (simp add: Let_def runsLoop_snd)
  next
    case (Suc j)
    with Cons.prems have "j < length stages" by simp
    from Cons.IH [OF this] Suc show ?thesis by (simp add: Let_def)
  qed
qed

lemma nameLens_Cons:
  "nameLens X (s # rest) =
     map (\<lambda>rc. length (RunContextString X rc)) (concat (map executors (pipeline s)))
     @ nameLens X rest"
  by (simp add: nameLens_def constructed_def)

lemma stagesLoop_width:
  "k < length stages \<Longrightarrow>
     width (stagesLoop X runner stages w ! k) =
       max w (greatest (nameLens X (take (Suc k) (stagesLoop X runner stages w))))"
proof (induction stages arbitrary: w k)
  case Nil
  then show ?case by simp
next
  case (Cons stage stages)
  let ?loop = "runsLoop X runner (Runs stage) w []"
  let ?here = "map (\<lambda>rc. length (RunContextString X rc))
                 (concat (map executors (snd ?loop)))"
  have w1: "fst ?loop = max w (greatest ?here)"
    by (simp add: runsLoop_fst runsLoop_snd comp_def)
  show ?case
  proof (cases k)
    case 0
    then show ?thesis
      by (simp add: Let_def nameLens_Cons w1 greatest_append)
         (simp add: nameLens_def constructed_def greatest_Nil)
  next
    case (Suc j)
    with Cons.prems have j: "j < length stages" by simp
    from Cons.IH [OF j, of "fst ?loop"] Suc show ?thesis
      by (simp add: Let_def nameLens_Cons greatest_append w1 max.assoc)
  qed
qed

lemma constructed_le_width:
  assumes "k < length stages"
    and "rc \<in> set (constructed [stagesLoop X runner stages w ! k])"
  shows "length (RunContextString X rc) \<le> width (stagesLoop X runner stages w ! k)"
proof -
  let ?trace = "stagesLoop X runner stages w"
  from assms(1) have "take (Suc k) ?trace = take k ?trace @ [?trace ! k]"
    by (simp add: take_Suc_conv_app_nth length_stagesLoop)
  then have "constructed (take (Suc k) ?trace) =
      constructed (take k ?trace) @ constructed [?trace ! k]"
    by (simp add: constructed_def)
  with assms(2) have "rc \<in> set (constructed (take (Suc k) ?trace))"
    by simp
  then have "length (RunContextString X rc) \<in> set (nameLens X (take (Suc k) ?trace))"
    by (simp add: nameLens_def)
  then have "length (RunContextString X rc) \<le> greatest (nameLens X (take (Suc k) ?trace))"
    by (rule greatest_ge)
  then show ?thesis
    by (simp add: stagesLoop_width [OF assms(1)])
qed

text \<open>
  C2, as the code has it. For the Run \<open>j\<close> of the stage \<open>k\<close> of a plan, the bound
  passed to the Run's \<^verbatim>\<open>NewParallelExecutor\<close> is the minimum of \<open>m\<close> and the number
  of filtered matrix points, where \<open>m\<close> is 4 when the job has no Strategy and the
  stored \<^verbatim>\<open>job.Strategy.MaxParallel\<close> when it has one, whatever its value. The job
  executors are one per filtered matrix point, in order, so an empty filtered matrix
  (or a failing \<^verbatim>\<open>GetMatrixes\<close>) gives none. Every Run of the stage adds one call.
\<close>

theorem maxParallel_bound:
  "k < length (Stages plan) \<Longrightarrow> j < length (Runs (Stages plan ! k)) \<Longrightarrow>
     (let run = Runs (Stages plan ! k) ! j;
          call = pipeline (NewPlanExecutor X runner plan ! k) ! j;
          job = snd (GetMatrixes X (Job run));
          matrixes = (case fst (GetMatrixes X (Job run)) of
                        Inl err \<Rightarrow> []
                      | Inr m \<Rightarrow> selectMatrixes m (Matrix (config runner)))
      in parallel call =
           min (case Strategy job of None \<Rightarrow> 4 | Some strategy \<Rightarrow> MaxParallel strategy)
               (int (length matrixes))
         \<and> map rcMatrix (executors call) = matrixes)
     \<and> length (pipeline (NewPlanExecutor X runner plan ! k)) = length (Runs (Stages plan ! k))"
  by (simp add: NewPlanExecutor_def stagesLoop_pipeline Let_def runBody_parallel
        runBody_matrixes)

theorem maxParallel_bound_witness:
  "parallel (pipeline (NewPlanExecutor
       \<lparr>RunString = JobID, Interpolate = (\<lambda>rc s. s), RunContextString = rcName,
        GetMatrixes = (\<lambda>job. (Inr (if Strategy job = None then [[]]
            else [[(''os'', VStr ''a'')], [(''os'', VStr ''b'')], [(''os'', VStr ''c'')]]), job))\<rparr>
       \<lparr>config = \<lparr>EventPath = [], Inputs = Map.empty, Secrets = Map.empty, Matrix = Map.empty,
                  EventJSON = [], ContainerNetworkMode = []\<rparr>, eventJSON = ''{}''\<rparr>
       \<lparr>Stages = [\<lparr>Runs = [\<lparr>JobID = ''lint'', Job = \<lparr>Strategy = None, Result = []\<rparr>\<rparr>,
                           \<lparr>JobID = ''test'',
                            Job = \<lparr>Strategy = Some \<lparr>MaxParallel = 2\<rparr>, Result = []\<rparr>\<rparr>]\<rparr>]\<rparr>
     ! 0) ! 1) = 2
   \<and> map rcMatrix (executors (pipeline (NewPlanExecutor
       \<lparr>RunString = JobID, Interpolate = (\<lambda>rc s. s), RunContextString = rcName,
        GetMatrixes = (\<lambda>job. (Inr (if Strategy job = None then [[]]
            else [[(''os'', VStr ''a'')], [(''os'', VStr ''b'')], [(''os'', VStr ''c'')]]), job))\<rparr>
       \<lparr>config = \<lparr>EventPath = [], Inputs = Map.empty, Secrets = Map.empty, Matrix = Map.empty,
                  EventJSON = [], ContainerNetworkMode = []\<rparr>, eventJSON = ''{}''\<rparr>
       \<lparr>Stages = [\<lparr>Runs = [\<lparr>JobID = ''lint'', Job = \<lparr>Strategy = None, Result = []\<rparr>\<rparr>,
                           \<lparr>JobID = ''test'',
                            Job = \<lparr>Strategy = Some \<lparr>MaxParallel = 2\<rparr>, Result = []\<rparr>\<rparr>]\<rparr>]\<rparr>
     ! 0) ! 1))
     = [[(''os'', VStr ''a'')], [(''os'', VStr ''b'')], [(''os'', VStr ''c'')]]"
proof -
  let ?plan = "\<lparr>Stages = [\<lparr>Runs = [\<lparr>JobID = ''lint'', Job = \<lparr>Strategy = None, Result = []\<rparr>\<rparr>,
                           \<lparr>JobID = ''test'',
                            Job = \<lparr>Strategy = Some \<lparr>MaxParallel = 2\<rparr>, Result = []\<rparr>\<rparr>]\<rparr>]\<rparr>"
  have k: "0 < length (Stages ?plan)" by simp
  have j: "1 < length (Runs (Stages ?plan ! 0))" by simp
  show ?thesis
    using maxParallel_bound [OF k j, of
       "\<lparr>RunString = JobID, Interpolate = (\<lambda>rc s. s), RunContextString = rcName,
        GetMatrixes = (\<lambda>job. (Inr (if Strategy job = None then [[]]
            else [[(''os'', VStr ''a'')], [(''os'', VStr ''b'')], [(''os'', VStr ''c'')]]), job))\<rparr>"
       "\<lparr>config = \<lparr>EventPath = [], Inputs = Map.empty, Secrets = Map.empty, Matrix = Map.empty,
                  EventJSON = [], ContainerNetworkMode = []\<rparr>, eventJSON = ''{}''\<rparr>"]
    by (simp add: Let_def selectMatrixes_def)
qed

text \<open>
  C2, as the claim states it, gives a job whose Strategy is present with
  \<^verbatim>\<open>MaxParallel\<close> zero the default 4, hence the bound \<open>min 4 3 = 3\<close> for three matrix
  points. The code passes the stored 0.
\<close>

theorem maxParallel_zero_counterexample:
  "map (\<lambda>s. map (\<lambda>call. (parallel call, length (executors call))) (pipeline s))
     (NewPlanExecutor
       \<lparr>RunString = JobID, Interpolate = (\<lambda>rc s. s), RunContextString = rcName,
        GetMatrixes = (\<lambda>job. (Inr
            [[(''os'', VStr ''a'')], [(''os'', VStr ''b'')], [(''os'', VStr ''c'')]], job))\<rparr>
       \<lparr>config = \<lparr>EventPath = [], Inputs = Map.empty, Secrets = Map.empty, Matrix = Map.empty,
                  EventJSON = [], ContainerNetworkMode = []\<rparr>, eventJSON = ''{}''\<rparr>
       \<lparr>Stages = [\<lparr>Runs = [\<lparr>JobID = ''test'',
                            Job = \<lparr>Strategy = Some \<lparr>MaxParallel = 0\<rparr>, Result = []\<rparr>\<rparr>]\<rparr>]\<rparr>)
   = [[(0, 3)]]"
  by (simp add: NewPlanExecutor_def runBody_def Let_def selectMatrixes_def matrixBody_def
        newRunContext_def)

text \<open>
  C8, as the code has it. The job executors of the stage \<open>k\<close> read as padding width
  the greatest length of a formatted run context name among the run contexts
  constructed by the stages 0 to \<open>k\<close>, that is by their own stage and the stages before
  it (0 when there is none); no name of their own stage is longer than this width. The
  width is fixed once the run contexts of the stage \<open>k\<close> are all constructed and before
  a job executor of that stage runs; run contexts of later stages are not counted.
\<close>

theorem padding_width_running_maximum:
  "k < length (Stages plan) \<Longrightarrow>
     width (NewPlanExecutor X runner plan ! k) =
       greatest (nameLens X (take (Suc k) (NewPlanExecutor X runner plan)))
     \<and> (\<forall>rc \<in> set (constructed [NewPlanExecutor X runner plan ! k]).
          length (RunContextString X rc) \<le> width (NewPlanExecutor X runner plan ! k))
     \<and> length (NewPlanExecutor X runner plan) = length (Stages plan)"
  using constructed_le_width [of k "Stages plan" _ X runner 0]
  by (simp add: NewPlanExecutor_def stagesLoop_width length_stagesLoop)

theorem padding_width_running_maximum_witness:
  "width (NewPlanExecutor
       \<lparr>RunString = JobID, Interpolate = (\<lambda>rc s. s), RunContextString = rcName,
        GetMatrixes = (\<lambda>job. (Inr (if Strategy job = None then [[]]
            else [[(''os'', VStr ''a'')], [(''os'', VStr ''b'')]]), job))\<rparr>
       \<lparr>config = \<lparr>EventPath = [], Inputs = Map.empty, Secrets = Map.empty, Matrix = Map.empty,
                  EventJSON = [], ContainerNetworkMode = []\<rparr>, eventJSON = ''{}''\<rparr>
       \<lparr>Stages = [\<lparr>Runs = [\<lparr>JobID = ''build'', Job = \<lparr>Strategy = None, Result = []\<rparr>\<rparr>]\<rparr>,
                  \<lparr>Runs = [\<lparr>JobID = ''test'',
                            Job = \<lparr>Strategy = Some \<lparr>MaxParallel = 2\<rparr>, Result = []\<rparr>\<rparr>]\<rparr>]\<rparr>
     ! 1) = 6"
proof -
  let ?plan = "\<lparr>Stages = [\<lparr>Runs = [\<lparr>JobID = ''build'', Job = \<lparr>Strategy = None, Result = []\<rparr>\<rparr>]\<rparr>,
                  \<lparr>Runs = [\<lparr>JobID = ''test'',
                            Job = \<lparr>Strategy = Some \<lparr>MaxParallel = 2\<rparr>, Result = []\<rparr>\<rparr>]\<rparr>]\<rparr>"
  have k: "1 < length (Stages ?plan)" by simp
  show ?thesis
    using padding_width_running_maximum [OF k, of
       "\<lparr>RunString = JobID, Interpolate = (\<lambda>rc s. s), RunContextString = rcName,
        GetMatrixes = (\<lambda>job. (Inr (if Strategy job = None then [[]]
            else [[(''os'', VStr ''a'')], [(''os'', VStr ''b'')]]), job))\<rparr>"
       "\<lparr>config = \<lparr>EventPath = [], Inputs = Map.empty, Secrets = Map.empty, Matrix = Map.empty,
                  EventJSON = [], ContainerNetworkMode = []\<rparr>, eventJSON = ''{}''\<rparr>"]
    by (simp add: NewPlanExecutor_def runBody_def Let_def selectMatrixes_def matrixBody_def
          newRunContext_def nameLens_def constructed_def greatest_def natToString.simps)
qed

text \<open>
  C8, as the claim states it, pads every job to the plan-wide maximum. In the plan
  below the job of the first stage reads the width 1, the length of its own name, while
  the greatest name length of the plan is 4, reached in the second stage.
\<close>

theorem padding_not_plan_wide_counterexample:
  "map width (NewPlanExecutor
       \<lparr>RunString = JobID, Interpolate = (\<lambda>rc s. s), RunContextString = rcName,
        GetMatrixes = (\<lambda>job. (Inr [[]], job))\<rparr>
       \<lparr>config = \<lparr>EventPath = [], Inputs = Map.empty, Secrets = Map.empty, Matrix = Map.empty,
                  EventJSON = [], ContainerNetworkMode = []\<rparr>, eventJSON = ''{}''\<rparr>
       \<lparr>Stages = [\<lparr>Runs = [\<lparr>JobID = ''a'', Job = \<lparr>Strategy = None, Result = []\<rparr>\<rparr>]\<rparr>,
                  \<lparr>Runs = [\<lparr>JobID = ''bbbb'', Job = \<lparr>Strategy = None, Result = []\<rparr>\<rparr>]\<rparr>]\<rparr>)
     = [1, 4]
   \<and> greatest (nameLens
       \<lparr>RunString = JobID, Interpolate = (\<lambda>rc s. s), RunContextString = rcName,
        GetMatrixes = (\<lambda>job. (Inr [[]], job))\<rparr>
       (NewPlanExecutor
       \<lparr>RunString = JobID, Interpolate = (\<lambda>rc s. s), RunContextString = rcName,
        GetMatrixes = (\<lambda>job. (Inr [[]], job))\<rparr>
       \<lparr>config = \<lparr>EventPath = [], Inputs = Map.empty, Secrets = Map.empty, Matrix = Map.empty,
                  EventJSON = [], ContainerNetworkMode = []\<rparr>, eventJSON = ''{}''\<rparr>
       \<lparr>Stages = [\<lparr>Runs = [\<lparr>JobID = ''a'', Job = \<lparr>Strategy = None, Result = []\<rparr>\<rparr>]\<rparr>,
                  \<lparr>Runs = [\<lparr>JobID = ''bbbb'', Job = \<lparr>Strategy = None, Result = []\<rparr>\<rparr>]\<rparr>]\<rparr>))
     = 4"
  by (simp add: NewPlanExecutor_def runBody_def Let_def selectMatrixes_def matrixBody_def
        newRunContext_def nameLens_def constructed_def greatest_def)

end
